theory Spec2Isabelle
  imports Complex_Main "HOL-Library.Log_Nat"
begin

section \<open>JavaScript numbers\<close>

text \<open>
  Every quantity of the library is a JavaScript number, an IEEE 754 double. A number is
  modelled by its value: a rational (every finite double is one), one of the two
  infinities, or \<open>NaN\<close>. Negative zero is identified with zero: the only operation of
  the library that tells them apart is a division by it.

  An arithmetic operation computes the exact result and rounds it to the nearest double,
  ties to the even significand: \<open>rnd\<close>. The doubles around \<open>x\<close> are spaced by
  \<open>2 ^ (max e (- 1022) - 52)\<close>, where \<open>2 ^ e \<le> |x| < 2 ^ (e + 1)\<close>; a result that rounds to
  \<open>2 ^ 1024\<close> or beyond is infinite.
\<close>

datatype number = Num rat | Infinity | NegInfinity | NaN

definition pow2 :: "int \<Rightarrow> rat" where
  "pow2 d = (if 0 \<le> d then 2 ^ nat d else 1 / 2 ^ nat (- d))"

definition ilog2 :: "rat \<Rightarrow> int" where
  \<comment> \<open>The \<open>e\<close> with \<open>2 ^ e \<le> |x| < 2 ^ (e + 1)\<close>, for \<open>x\<close> other than 0.\<close>
  "ilog2 x =
     (case quotient_of \<bar>x\<bar> of (a, b) \<Rightarrow>
        let d = bitlen a - bitlen b
        in if pow2 d \<le> \<bar>x\<bar> then d else d - 1)"

definition round_half_even :: "rat \<Rightarrow> int" where
  "round_half_even r =
     (let f = \<lfloor>r\<rfloor>; d = r - of_int f
      in if d < 1 / 2 then f
         else if 1 / 2 < d then f + 1
         else if even f then f else f + 1)"

definition rnd :: "rat \<Rightarrow> number" where
  "rnd x =
     (if x = 0 then Num 0
      else let q = pow2 (max (ilog2 x) (- 1022) - 52);
               y = of_int (round_half_even (x / q)) * q
           in if pow2 1024 \<le> y then Infinity
              else if y \<le> - pow2 1024 then NegInfinity
              else Num y)"

definition signed_inf :: "rat \<Rightarrow> number" where
  \<comment> \<open>An infinity of the sign of \<open>s\<close>; \<open>NaN\<close> for \<open>0\<close> (\<open>0 * Infinity\<close>, \<open>0 / 0\<close>).\<close>
  "signed_inf s = (if s = 0 then NaN else if 0 < s then Infinity else NegInfinity)"

fun fneg :: "number \<Rightarrow> number" where
  "fneg (Num x) = Num (- x)"
| "fneg Infinity = NegInfinity"
| "fneg NegInfinity = Infinity"
| "fneg NaN = NaN"

fun fadd :: "number \<Rightarrow> number \<Rightarrow> number" where
  \<comment> \<open>\<open>a + b\<close>\<close>
  "fadd (Num x) (Num y) = rnd (x + y)"
| "fadd NaN b = NaN"
| "fadd a NaN = NaN"
| "fadd Infinity NegInfinity = NaN"
| "fadd NegInfinity Infinity = NaN"
| "fadd Infinity b = Infinity"
| "fadd a Infinity = Infinity"
| "fadd NegInfinity b = NegInfinity"
| "fadd a NegInfinity = NegInfinity"

definition fsub :: "number \<Rightarrow> number \<Rightarrow> number" where
  \<comment> \<open>\<open>a - b\<close>\<close>
  "fsub a b = fadd a (fneg b)"

fun fmul :: "number \<Rightarrow> number \<Rightarrow> number" where
  \<comment> \<open>\<open>a * b\<close>\<close>
  "fmul (Num x) (Num y) = rnd (x * y)"
| "fmul NaN b = NaN"
| "fmul a NaN = NaN"
| "fmul Infinity (Num y) = signed_inf y"
| "fmul (Num x) Infinity = signed_inf x"
| "fmul NegInfinity (Num y) = signed_inf (- y)"
| "fmul (Num x) NegInfinity = signed_inf (- x)"
| "fmul Infinity Infinity = Infinity"
| "fmul NegInfinity NegInfinity = Infinity"
| "fmul Infinity NegInfinity = NegInfinity"
| "fmul NegInfinity Infinity = NegInfinity"

fun fdiv :: "number \<Rightarrow> number \<Rightarrow> number" where
  \<comment> \<open>\<open>a / b\<close>\<close>
  "fdiv (Num x) (Num y) = (if y = 0 then signed_inf x else rnd (x / y))"
| "fdiv NaN b = NaN"
| "fdiv a NaN = NaN"
| "fdiv (Num x) Infinity = Num 0"
| "fdiv (Num x) NegInfinity = Num 0"
| "fdiv Infinity (Num y) = (if 0 \<le> y then Infinity else NegInfinity)"
| "fdiv NegInfinity (Num y) = (if 0 \<le> y then NegInfinity else Infinity)"
| "fdiv a b = NaN"

fun lt :: "number \<Rightarrow> number \<Rightarrow> bool" where
  \<comment> \<open>\<open>a < b\<close>\<close>
  "lt (Num x) (Num y) = (x < y)"
| "lt NaN b = False"
| "lt a NaN = False"
| "lt a NegInfinity = False"
| "lt NegInfinity b = True"
| "lt Infinity b = False"
| "lt a Infinity = True"

definition gt :: "number \<Rightarrow> number \<Rightarrow> bool" where
  \<comment> \<open>\<open>a > b\<close>\<close>
  "gt a b = lt b a"

definition ge :: "number \<Rightarrow> number \<Rightarrow> bool" where
  \<comment> \<open>\<open>a >= b\<close>\<close>
  "ge a b = (a \<noteq> NaN \<and> b \<noteq> NaN \<and> \<not> lt a b)"

definition Math_min :: "number \<Rightarrow> number \<Rightarrow> number" where
  "Math_min a b = (if a = NaN \<or> b = NaN then NaN else if lt b a then b else a)"

definition Math_max :: "number \<Rightarrow> number \<Rightarrow> number" where
  "Math_max a b = (if a = NaN \<or> b = NaN then NaN else if lt a b then b else a)"

fun Math_floor :: "number \<Rightarrow> number" where
  "Math_floor (Num x) = Num (of_int \<lfloor>x\<rfloor>)"
| "Math_floor a = a"

fun Math_ceil :: "number \<Rightarrow> number" where
  "Math_ceil (Num x) = Num (of_int \<lceil>x\<rceil>)"
| "Math_ceil a = a"

definition truthy :: "number \<Rightarrow> bool" where
  \<comment> \<open>A number as a condition: \<open>0\<close> and \<open>NaN\<close> are falsy.\<close>
  "truthy a = (a \<noteq> Num 0 \<and> a \<noteq> NaN)"

definition newDate :: "number \<Rightarrow> number" where
  \<comment> \<open>\<open>new Date(v)\<close>, a \<open>Date\<close> being represented by its time value: \<open>v\<close> truncated
      towards zero, or \<open>NaN\<close> (Invalid Date) when \<open>v\<close> is not finite or beyond
      \<open>8.64e15\<close> ms.\<close>
  "newDate v =
     (case v of
        Num x \<Rightarrow> if 8640000000000000 < \<bar>x\<bar> then NaN
                 else Num (of_int (if 0 \<le> x then \<lfloor>x\<rfloor> else \<lceil>x\<rceil>))
      | _ \<Rightarrow> NaN)"

definition MAX_SAFE_INTEGER :: number where
  "MAX_SAFE_INTEGER = Num 9007199254740991"

section \<open>Result types\<close>

record RateLimit =
  rl_availableTokens :: number
  rl_retryAfter :: number
  rl_accepted :: bool
  rl_limit :: number

record Reservation =
  res_timeToAct :: number
  res_rateLimit :: RateLimit

datatype error =
    InvalidIntervalError
  | Error
  | MaxWaitDurationExceededException RateLimit
  | MaxWaitDurationExceededError RateLimit
  | ReserveNotSupportedError

section \<open>Rate\<close>

record Rate =
  intervalInSeconds :: number
  amount :: number

definition newRate :: "number \<Rightarrow> number \<Rightarrow> error + Rate" where
  "newRate i a =
     (if lt i (Num 1) then Inl InvalidIntervalError
      else if lt a (Num 1) then Inl InvalidIntervalError
      else Inr \<lparr>intervalInSeconds = i, amount = a\<rparr>)"

definition calculateTimeForTokens :: "Rate \<Rightarrow> number \<Rightarrow> number" where
  "calculateTimeForTokens r n = Math_ceil (fdiv (fmul n (intervalInSeconds r)) (amount r))"

definition calculateNewTokensDuringInterval :: "Rate \<Rightarrow> number \<Rightarrow> number" where
  "calculateNewTokensDuringInterval r durationInSeconds =
     Math_floor (fdiv (fmul durationInSeconds (amount r)) (intervalInSeconds r))"

section \<open>TokenBucket\<close>

text \<open>
  The \<open>id\<close> of a state object is the key under which the storage holds it: a state is
  built with the id of its limiter, saved under \<open>state.getId()\<close> and fetched under the
  limiter's id. The model keeps the id as the key only.
\<close>

record TokenBucket =
  tb_tokens :: number
  tb_burstSize :: number
  tb_timer :: number
  tb_rate :: Rate

definition newTokenBucket :: "number \<Rightarrow> Rate \<Rightarrow> number \<Rightarrow> TokenBucket" where
  \<comment> \<open>\<open>new TokenBucket(id, burstSize, rate)\<close>: \<open>tokens ?? burstSize\<close>, and \<open>t\<close> is the
      \<open>TimeUtil.now()\<close> that the constructor reads.\<close>
  "newTokenBucket b r t = \<lparr>tb_tokens = b, tb_burstSize = b, tb_timer = t, tb_rate = r\<rparr>"

definition tb_getExpirationTime :: "TokenBucket \<Rightarrow> number" where
  "tb_getExpirationTime b =
     (let refillTime = calculateTimeForTokens (tb_rate b) (tb_burstSize b)
      in Math_ceil (fadd (tb_timer b) refillTime))"

definition getAvailableTokens :: "TokenBucket \<Rightarrow> number \<Rightarrow> number" where
  "getAvailableTokens b now =
     (let elapsed = fsub now (tb_timer b);
          newTokens = calculateNewTokensDuringInterval (tb_rate b) elapsed
      in Math_min (tb_burstSize b) (fadd (tb_tokens b) newTokens))"

section \<open>Window (fixed window state)\<close>

record Window =
  w_hitCount :: number
  w_intervalInSeconds :: number
  w_maxSize :: number
  w_timer :: number

definition w_getExpirationTime :: "Window \<Rightarrow> number" where
  "w_getExpirationTime w = Math_ceil (fadd (w_timer w) (w_intervalInSeconds w))"

definition w_add :: "Window \<Rightarrow> number \<Rightarrow> number \<Rightarrow> Window" where
  "w_add w hits now =
     (if ge now (fadd (w_timer w) (w_intervalInSeconds w))
      then w\<lparr>w_hitCount := hits,
             w_timer := fmul (Math_floor (fdiv now (w_intervalInSeconds w)))
                             (w_intervalInSeconds w)\<rparr>
      else w\<lparr>w_hitCount := fadd (w_hitCount w) hits\<rparr>)"

definition w_getAvailableTokens :: "Window \<Rightarrow> number \<Rightarrow> number" where
  "w_getAvailableTokens w now =
     (if ge now (fadd (w_timer w) (w_intervalInSeconds w)) then w_maxSize w
      else Math_max (Num 0) (fsub (w_maxSize w) (w_hitCount w)))"

definition w_calculateTimeForTokens :: "Window \<Rightarrow> number \<Rightarrow> number \<Rightarrow> number" where
  "w_calculateTimeForTokens w n now =
     (let available = w_getAvailableTokens w now
      in if ge available n then Num 0
         else (let windowEnd = fadd (w_timer w) (w_intervalInSeconds w)
               in fsub windowEnd now))"

section \<open>SlidingWindow\<close>

record SlidingWindow =
  sw_hitCount :: number
  sw_hitCountForLastWindow :: number
  sw_windowEndAt :: number
  sw_intervalInSeconds :: number

definition newSlidingWindow :: "number \<Rightarrow> number \<Rightarrow> SlidingWindow" where
  \<comment> \<open>\<open>new SlidingWindow(id, intervalInSeconds)\<close>: no hits, the window ends one interval
      after the \<open>TimeUtil.now()\<close> that the constructor reads, \<open>t\<close>.\<close>
  "newSlidingWindow i t =
     \<lparr>sw_hitCount = Num 0, sw_hitCountForLastWindow = Num 0,
      sw_windowEndAt = fadd t i, sw_intervalInSeconds = i\<rparr>"

definition sw_getExpirationTime :: "SlidingWindow \<Rightarrow> number" where
  "sw_getExpirationTime w = Math_ceil (fadd (sw_windowEndAt w) (sw_intervalInSeconds w))"

definition createFromPreviousWindow ::
  "number \<Rightarrow> SlidingWindow \<Rightarrow> number \<Rightarrow> SlidingWindow" where
  "createFromPreviousWindow i previousWindow now =
     (let newWindowEndAt = fadd now i
      in \<lparr>sw_hitCount = Num 0, sw_hitCountForLastWindow = sw_hitCount previousWindow,
          sw_windowEndAt = newWindowEndAt, sw_intervalInSeconds = i\<rparr>)"

definition sw_isExpired :: "SlidingWindow \<Rightarrow> number \<Rightarrow> bool" where
  "sw_isExpired w now = ge now (fadd (sw_windowEndAt w) (sw_intervalInSeconds w))"

definition sw_add :: "SlidingWindow \<Rightarrow> number \<Rightarrow> SlidingWindow" where
  "sw_add w hits = w\<lparr>sw_hitCount := fadd (sw_hitCount w) hits\<rparr>"

definition sw_getHitCount :: "SlidingWindow \<Rightarrow> number \<Rightarrow> number" where
  "sw_getHitCount w now =
     (if ge now (sw_windowEndAt w) then sw_hitCount w
      else (let windowStartAt = fsub (sw_windowEndAt w) (sw_intervalInSeconds w);
                timeIntoWindow = fsub now windowStartAt;
                percentIntoWindow = fdiv timeIntoWindow (sw_intervalInSeconds w);
                previousContribution =
                  fmul (sw_hitCountForLastWindow w) (fsub (Num 1) percentIntoWindow);
                currentContribution = sw_hitCount w
            in Math_floor (fadd previousContribution currentContribution)))"

definition sw_calculateTimeForTokens ::
  "SlidingWindow \<Rightarrow> number \<Rightarrow> number \<Rightarrow> number \<Rightarrow> number" where
  "sw_calculateTimeForTokens w maxSize n now =
     (let currentCount = sw_getHitCount w now;
          available = Math_max (Num 0) (fsub maxSize currentCount)
      in if ge available n then Num 0 else fsub (sw_windowEndAt w) now)"

section \<open>The clock, the objects and InMemoryStorage\<close>

text \<open>
  \<open>fetch\<close> hands out the stored object itself, not a copy, so what a limiter does to a
  fetched state is done to the state the storage holds, saved or not, and two callers that
  fetched the same entry work on one object. Objects are therefore kept apart from the
  references to them. A state object is only ever stored under its own id, so the objects
  are kept by key: a \<open>Cell\<close> holds the storage entry of a key, if any, and all the state
  objects built under that key, by class; a \<open>Ref\<close> is the class and the index of one.

  The clock is \<open>Date.now()\<close>, in whole milliseconds. It may advance between two readings
  of one call: \<open>clock\<close> is what the next reading returns and \<open>ticks\<close> what the readings
  after it return, in turn; once \<open>ticks\<close> is used up the clock stands still.

  The lock is the default \<open>NoLock\<close>: \<open>withLock\<close> runs the callback.
\<close>

datatype Ref = BucketRef nat | WindowRef nat | SlidingWindowRef nat

datatype LimiterState =
    TokenBucketState TokenBucket
  | WindowState Window
  | SlidingWindowState SlidingWindow

record StorageEntry =
  expiresAt :: "number option"
  state :: Ref

record Cell =
  entry :: "StorageEntry option"
  buckets :: "TokenBucket list"
  windows :: "Window list"
  slidingWindows :: "SlidingWindow list"

record World =
  cells :: "string \<Rightarrow> Cell"
  clock :: int
  ticks :: "int list"

definition empty_storage :: World where
  \<comment> \<open>\<open>new InMemoryStorage()\<close>, the clock standing at \<open>0\<close>.\<close>
  "empty_storage =
     \<lparr>cells = (\<lambda>k. \<lparr>entry = None, buckets = [], windows = [], slidingWindows = []\<rparr>),
      clock = 0, ticks = []\<rparr>"

definition Date_now :: "World \<Rightarrow> int \<times> World" where
  "Date_now w =
     (clock w, case ticks w of [] \<Rightarrow> w | t # ts \<Rightarrow> w\<lparr>clock := t, ticks := ts\<rparr>)"

definition TimeUtil_now :: "World \<Rightarrow> number \<times> World" where
  \<comment> \<open>\<open>TimeUtil.now()\<close>: \<open>Date.now() / 1000\<close>.\<close>
  "TimeUtil_now w = (case Date_now w of (ms, w') \<Rightarrow> (fdiv (Num (of_int ms)) (Num 1000), w'))"

definition deref :: "Cell \<Rightarrow> Ref \<Rightarrow> LimiterState" where
  "deref c r =
     (case r of
        BucketRef i \<Rightarrow> TokenBucketState (buckets c ! i)
      | WindowRef i \<Rightarrow> WindowState (windows c ! i)
      | SlidingWindowRef i \<Rightarrow> SlidingWindowState (slidingWindows c ! i))"

fun getExpirationTime :: "LimiterState \<Rightarrow> number" where
  "getExpirationTime (TokenBucketState b) = tb_getExpirationTime b"
| "getExpirationTime (WindowState w) = w_getExpirationTime w"
| "getExpirationTime (SlidingWindowState w) = sw_getExpirationTime w"

definition save :: "string \<Rightarrow> Ref \<Rightarrow> World \<Rightarrow> World" where
  \<comment> \<open>\<open>storage.save(state)\<close> for the object \<open>r\<close> of key \<open>k = state.getId()\<close>.\<close>
  "save k r w =
     (let c = cells w k;
          expirationTime = getExpirationTime (deref c r);
          e = (if truthy expirationTime then Some (fmul expirationTime (Num 1000)) else None)
      in w\<lparr>cells := (cells w)(k := c\<lparr>entry := Some \<lparr>expiresAt = e, state = r\<rparr>\<rparr>)\<rparr>)"

definition fetch :: "string \<Rightarrow> World \<Rightarrow> Ref option \<times> World" where
  \<comment> \<open>\<open>storage.fetch(id)\<close>: the clock is read only for an entry that can expire, and an
      expired entry is deleted.\<close>
  "fetch k w =
     (case entry (cells w k) of
        None \<Rightarrow> (None, w)
      | Some e \<Rightarrow>
          (case expiresAt e of
             None \<Rightarrow> (Some (state e), w)
           | Some x \<Rightarrow>
               (case Date_now w of (ms, w') \<Rightarrow>
                  if ge (Num (of_int ms)) x
                  then (None, w'\<lparr>cells := (cells w')(k := (cells w' k)\<lparr>entry := None\<rparr>)\<rparr>)
                  else (Some (state e), w'))))"

definition delete :: "string \<Rightarrow> World \<Rightarrow> World" where
  "delete k w = w\<lparr>cells := (cells w)(k := (cells w k)\<lparr>entry := None\<rparr>)\<rparr>"

definition bucket_at :: "string \<Rightarrow> nat \<Rightarrow> World \<Rightarrow> TokenBucket" where
  "bucket_at k i w = buckets (cells w k) ! i"

definition set_bucket :: "string \<Rightarrow> nat \<Rightarrow> TokenBucket \<Rightarrow> World \<Rightarrow> World" where
  \<comment> \<open>The setters of a bucket object.\<close>
  "set_bucket k i b w =
     w\<lparr>cells := (cells w)(k := (cells w k)\<lparr>buckets := (buckets (cells w k))[i := b]\<rparr>)\<rparr>"

definition new_bucket :: "string \<Rightarrow> TokenBucket \<Rightarrow> World \<Rightarrow> nat \<times> World" where
  "new_bucket k b w =
     (length (buckets (cells w k)),
      w\<lparr>cells := (cells w)(k := (cells w k)\<lparr>buckets := buckets (cells w k) @ [b]\<rparr>)\<rparr>)"

definition window_at :: "string \<Rightarrow> nat \<Rightarrow> World \<Rightarrow> Window" where
  "window_at k i w = windows (cells w k) ! i"

definition set_window :: "string \<Rightarrow> nat \<Rightarrow> Window \<Rightarrow> World \<Rightarrow> World" where
  "set_window k i x w =
     w\<lparr>cells := (cells w)(k := (cells w k)\<lparr>windows := (windows (cells w k))[i := x]\<rparr>)\<rparr>"

definition new_window :: "string \<Rightarrow> Window \<Rightarrow> World \<Rightarrow> nat \<times> World" where
  "new_window k x w =
     (length (windows (cells w k)),
      w\<lparr>cells := (cells w)(k := (cells w k)\<lparr>windows := windows (cells w k) @ [x]\<rparr>)\<rparr>)"

definition slidingWindow_at :: "string \<Rightarrow> nat \<Rightarrow> World \<Rightarrow> SlidingWindow" where
  "slidingWindow_at k i w = slidingWindows (cells w k) ! i"

definition set_slidingWindow :: "string \<Rightarrow> nat \<Rightarrow> SlidingWindow \<Rightarrow> World \<Rightarrow> World" where
  "set_slidingWindow k i x w =
     w\<lparr>cells := (cells w)(k := (cells w k)
          \<lparr>slidingWindows := (slidingWindows (cells w k))[i := x]\<rparr>)\<rparr>"

definition new_slidingWindow :: "string \<Rightarrow> SlidingWindow \<Rightarrow> World \<Rightarrow> nat \<times> World" where
  "new_slidingWindow k x w =
     (length (slidingWindows (cells w k)),
      w\<lparr>cells := (cells w)(k := (cells w k)
          \<lparr>slidingWindows := slidingWindows (cells w k) @ [x]\<rparr>)\<rparr>)"

section \<open>TokenBucketLimiter\<close>

text \<open>
  A call of \<open>consume\<close> or \<open>reserve\<close> runs in three stretches, cut at its two
  \<open>await\<close>s on the storage: up to the call of \<open>storage.fetch\<close> (\<open>enter\<close>); the rest of
  \<open>getOrCreateBucket\<close>; and the body after it. InMemoryStorage runs \<open>fetch\<close> and \<open>save\<close>
  to their end when they are called.
\<close>

record TokenBucketLimiter =
  tbl_id :: string
  tbl_burstSize :: number
  tbl_rate :: Rate

definition tbl_enter :: "TokenBucketLimiter \<Rightarrow> World \<Rightarrow> (number \<times> Ref option) \<times> World" where
  \<comment> \<open>\<open>const now = TimeUtil.now()\<close> and, in \<open>getOrCreateBucket\<close>,
      \<open>this.storage.fetch(this.id)\<close>.\<close>
  "tbl_enter l w =
     (case TimeUtil_now w of (now, w1) \<Rightarrow>
      case fetch (tbl_id l) w1 of (fetched, w2) \<Rightarrow> ((now, fetched), w2))"

definition getOrCreateBucket :: "TokenBucketLimiter \<Rightarrow> Ref option \<Rightarrow> World \<Rightarrow> nat \<times> World" where
  \<comment> \<open>\<open>getOrCreateBucket\<close> from \<open>state instanceof TokenBucket\<close> on; the constructor reads
      the clock again.\<close>
  "getOrCreateBucket l fetched w =
     (case fetched of
        Some (BucketRef i) \<Rightarrow> (i, w)
      | _ \<Rightarrow>
          (case TimeUtil_now w of (t, w1) \<Rightarrow>
             new_bucket (tbl_id l) (newTokenBucket (tbl_burstSize l) (tbl_rate l) t) w1))"

definition tbl_consume_body ::
  "TokenBucketLimiter \<Rightarrow> number \<Rightarrow> number \<Rightarrow> nat \<Rightarrow> World \<Rightarrow> RateLimit \<times> World" where
  "tbl_consume_body l n now i w =
     (let bucket = bucket_at (tbl_id l) i w;
          availableTokens = getAvailableTokens bucket now;
          bucket1 = bucket\<lparr>tb_tokens := availableTokens, tb_timer := now\<rparr>
      in if ge availableTokens n then
           (let bucket2 = bucket1\<lparr>tb_tokens := fsub availableTokens n\<rparr>
            in (\<lparr>rl_availableTokens = fsub availableTokens n,
                 rl_retryAfter = newDate (fmul now (Num 1000)),
                 rl_accepted = True,
                 rl_limit = tbl_burstSize l\<rparr>,
                save (tbl_id l) (BucketRef i) (set_bucket (tbl_id l) i bucket2 w)))
         else
           (let tokensNeeded = fsub n availableTokens;
                waitTime = calculateTimeForTokens (tbl_rate l) tokensNeeded;
                retryAfter = newDate (fmul (fadd now waitTime) (Num 1000))
            in (\<lparr>rl_availableTokens = availableTokens,
                 rl_retryAfter = retryAfter,
                 rl_accepted = False,
                 rl_limit = tbl_burstSize l\<rparr>,
                set_bucket (tbl_id l) i bucket1 w)))"

definition tbl_consume :: "TokenBucketLimiter \<Rightarrow> number \<Rightarrow> World \<Rightarrow> RateLimit \<times> World" where
  "tbl_consume l n w =
     (case tbl_enter l w of ((now, fetched), w1) \<Rightarrow>
      case getOrCreateBucket l fetched w1 of (i, w2) \<Rightarrow>
      tbl_consume_body l n now i w2)"

definition tbl_reserve_body ::
  "TokenBucketLimiter \<Rightarrow> number \<Rightarrow> number option \<Rightarrow> number \<Rightarrow> nat \<Rightarrow> World
     \<Rightarrow> (error + Reservation) \<times> World" where
  "tbl_reserve_body l n maxTime now i w =
     (let bucket = bucket_at (tbl_id l) i w;
          availableTokens = getAvailableTokens bucket now;
          bucket1 = bucket\<lparr>tb_tokens := availableTokens, tb_timer := now\<rparr>
      in if gt n (tbl_burstSize l) then
           (Inl Error, set_bucket (tbl_id l) i bucket1 w)
         else
           (case (if ge availableTokens n
                  then (now, Num 0, bucket1\<lparr>tb_tokens := fsub availableTokens n\<rparr>)
                  else (let tokensNeeded = fsub n availableTokens;
                            waitTime = calculateTimeForTokens (tbl_rate l) tokensNeeded;
                            timeToAct = fadd now waitTime
                        in (timeToAct, waitTime,
                            bucket1\<lparr>tb_tokens := Num 0, tb_timer := timeToAct\<rparr>)))
            of (timeToAct, waitTime, bucket2) \<Rightarrow>
              if maxTime \<noteq> None \<and> gt waitTime (the maxTime) then
                (let retryAfter = newDate (fmul (fadd now waitTime) (Num 1000));
                     rateLimit = \<lparr>rl_availableTokens = availableTokens,
                                  rl_retryAfter = retryAfter,
                                  rl_accepted = False,
                                  rl_limit = tbl_burstSize l\<rparr>
                 in (Inl (MaxWaitDurationExceededException rateLimit),
                     set_bucket (tbl_id l) i bucket2 w))
              else
                (let retryAfter = newDate (fmul timeToAct (Num 1000));
                     rateLimit = \<lparr>rl_availableTokens =
                                    Math_max (Num 0) (fsub availableTokens n),
                                  rl_retryAfter = retryAfter,
                                  rl_accepted = True,
                                  rl_limit = tbl_burstSize l\<rparr>
                 in (Inr \<lparr>res_timeToAct = fmul timeToAct (Num 1000),
                          res_rateLimit = rateLimit\<rparr>,
                     save (tbl_id l) (BucketRef i) (set_bucket (tbl_id l) i bucket2 w)))))"

definition tbl_reserve ::
  "TokenBucketLimiter \<Rightarrow> number \<Rightarrow> number option \<Rightarrow> World \<Rightarrow> (error + Reservation) \<times> World"
  where
  "tbl_reserve l n maxTime w =
     (case tbl_enter l w of ((now, fetched), w1) \<Rightarrow>
      case getOrCreateBucket l fetched w1 of (i, w2) \<Rightarrow>
      tbl_reserve_body l n maxTime now i w2)"

definition tbl_reset :: "TokenBucketLimiter \<Rightarrow> World \<Rightarrow> World" where
  "tbl_reset l w = delete (tbl_id l) w"

section \<open>FixedWindowLimiter\<close>

record FixedWindowLimiter =
  fwl_id :: string
  fwl_limit :: number
  fwl_intervalInSeconds :: number

definition fwl_enter :: "FixedWindowLimiter \<Rightarrow> World \<Rightarrow> (number \<times> Ref option) \<times> World" where
  "fwl_enter l w =
     (case TimeUtil_now w of (now, w1) \<Rightarrow>
      case fetch (fwl_id l) w1 of (fetched, w2) \<Rightarrow> ((now, fetched), w2))"

definition getOrCreateWindow ::
  "FixedWindowLimiter \<Rightarrow> number \<Rightarrow> Ref option \<Rightarrow> World \<Rightarrow> nat \<times> World" where
  \<comment> \<open>\<open>getOrCreateWindow(now)\<close> from \<open>state instanceof Window\<close> on.\<close>
  "getOrCreateWindow l now fetched w =
     (case fetched of
        Some (WindowRef i) \<Rightarrow> (i, w)
      | _ \<Rightarrow>
          (let windowStart = fmul (Math_floor (fdiv now (fwl_intervalInSeconds l)))
                                  (fwl_intervalInSeconds l)
           in new_window (fwl_id l)
                \<lparr>w_hitCount = Num 0, w_intervalInSeconds = fwl_intervalInSeconds l,
                 w_maxSize = fwl_limit l, w_timer = windowStart\<rparr> w))"

definition fwl_consume_body ::
  "FixedWindowLimiter \<Rightarrow> number \<Rightarrow> number \<Rightarrow> nat \<Rightarrow> World \<Rightarrow> RateLimit \<times> World" where
  "fwl_consume_body l n now i w =
     (let window = window_at (fwl_id l) i w;
          availableTokens = w_getAvailableTokens window now
      in if ge availableTokens n then
           (\<lparr>rl_availableTokens = fsub availableTokens n,
             rl_retryAfter = newDate (fmul now (Num 1000)),
             rl_accepted = True,
             rl_limit = fwl_limit l\<rparr>,
            save (fwl_id l) (WindowRef i) (set_window (fwl_id l) i (w_add window n now) w))
         else
           (let waitTime = w_calculateTimeForTokens window n now;
                retryAfter = newDate (fmul (fadd now waitTime) (Num 1000))
            in (\<lparr>rl_availableTokens = availableTokens,
                 rl_retryAfter = retryAfter,
                 rl_accepted = False,
                 rl_limit = fwl_limit l\<rparr>,
                w)))"

definition fwl_consume :: "FixedWindowLimiter \<Rightarrow> number \<Rightarrow> World \<Rightarrow> RateLimit \<times> World" where
  "fwl_consume l n w =
     (case fwl_enter l w of ((now, fetched), w1) \<Rightarrow>
      case getOrCreateWindow l now fetched w1 of (i, w2) \<Rightarrow>
      fwl_consume_body l n now i w2)"

definition fwl_reserve ::
  "FixedWindowLimiter \<Rightarrow> number \<Rightarrow> number option \<Rightarrow> World \<Rightarrow> (error + Reservation) \<times> World"
  where
  "fwl_reserve l n maxTime w =
     (case fwl_enter l w of ((now, fetched), w1) \<Rightarrow>
      case getOrCreateWindow l now fetched w1 of (i, w2) \<Rightarrow>
      let window = window_at (fwl_id l) i w2;
          availableTokens = w_getAvailableTokens window now
      in if gt n (fwl_limit l) then (Inl Error, w2)
         else
           (case (if ge availableTokens n
                  then (now, Num 0, w_add window n now)
                  else (let windowEnd = fadd (w_timer window) (fwl_intervalInSeconds l);
                            waitTime = fsub windowEnd now
                        in (windowEnd, waitTime, window)))
            of (timeToAct, waitTime, window1) \<Rightarrow>
              if maxTime \<noteq> None \<and> gt waitTime (the maxTime) then
                (let retryAfter = newDate (fmul (fadd now waitTime) (Num 1000));
                     rateLimit = \<lparr>rl_availableTokens = availableTokens,
                                  rl_retryAfter = retryAfter,
                                  rl_accepted = False,
                                  rl_limit = fwl_limit l\<rparr>
                 in (Inl (MaxWaitDurationExceededError rateLimit),
                     set_window (fwl_id l) i window1 w2))
              else
                (let retryAfter = newDate (fmul timeToAct (Num 1000));
                     rateLimit = \<lparr>rl_availableTokens =
                                    Math_max (Num 0) (fsub availableTokens n),
                                  rl_retryAfter = retryAfter,
                                  rl_accepted = True,
                                  rl_limit = fwl_limit l\<rparr>
                 in (Inr \<lparr>res_timeToAct = fmul timeToAct (Num 1000),
                          res_rateLimit = rateLimit\<rparr>,
                     save (fwl_id l) (WindowRef i) (set_window (fwl_id l) i window1 w2)))))"

definition fwl_reset :: "FixedWindowLimiter \<Rightarrow> World \<Rightarrow> World" where
  "fwl_reset l w = delete (fwl_id l) w"

section \<open>SlidingWindowLimiter\<close>

record SlidingWindowLimiter =
  swl_id :: string
  swl_limit :: number
  swl_intervalInSeconds :: number

definition swl_enter :: "SlidingWindowLimiter \<Rightarrow> World \<Rightarrow> (number \<times> Ref option) \<times> World" where
  "swl_enter l w =
     (case TimeUtil_now w of (now, w1) \<Rightarrow>
      case fetch (swl_id l) w1 of (fetched, w2) \<Rightarrow> ((now, fetched), w2))"

definition getOrCreateSlidingWindow ::
  "SlidingWindowLimiter \<Rightarrow> Ref option \<Rightarrow> World \<Rightarrow> nat \<times> World" where
  \<comment> \<open>\<open>getOrCreateWindow\<close> from \<open>state instanceof SlidingWindow\<close> on; the constructor
      reads the clock.\<close>
  "getOrCreateSlidingWindow l fetched w =
     (case fetched of
        Some (SlidingWindowRef i) \<Rightarrow> (i, w)
      | _ \<Rightarrow>
          (case TimeUtil_now w of (t, w1) \<Rightarrow>
             new_slidingWindow (swl_id l) (newSlidingWindow (swl_intervalInSeconds l) t) w1))"

definition maybeTransitionWindow ::
  "SlidingWindowLimiter \<Rightarrow> nat \<Rightarrow> number \<Rightarrow> World \<Rightarrow> nat \<times> World" where
  "maybeTransitionWindow l i now w =
     (let window = slidingWindow_at (swl_id l) i w;
          windowEndAt = sw_windowEndAt window
      in if lt now windowEndAt then (i, w)
         else if sw_isExpired window now then
           (case TimeUtil_now w of (t, w1) \<Rightarrow>
              new_slidingWindow (swl_id l) (newSlidingWindow (swl_intervalInSeconds l) t) w1)
         else
           new_slidingWindow (swl_id l)
             (createFromPreviousWindow (swl_intervalInSeconds l) window now) w)"

definition swl_consume_body ::
  "SlidingWindowLimiter \<Rightarrow> number \<Rightarrow> number \<Rightarrow> nat \<Rightarrow> World \<Rightarrow> RateLimit \<times> World" where
  "swl_consume_body l n now i w =
     (case maybeTransitionWindow l i now w of (j, w1) \<Rightarrow>
      let updatedWindow = slidingWindow_at (swl_id l) j w1;
          currentHitCount = sw_getHitCount updatedWindow now;
          availableTokens = Math_max (Num 0) (fsub (swl_limit l) currentHitCount)
      in if ge availableTokens n then
           (\<lparr>rl_availableTokens = fsub availableTokens n,
             rl_retryAfter = newDate (fmul now (Num 1000)),
             rl_accepted = True,
             rl_limit = swl_limit l\<rparr>,
            save (swl_id l) (SlidingWindowRef j)
              (set_slidingWindow (swl_id l) j (sw_add updatedWindow n) w1))
         else
           (let waitTime = sw_calculateTimeForTokens updatedWindow (swl_limit l) n now;
                retryAfter = newDate (fmul (fadd now waitTime) (Num 1000))
            in (\<lparr>rl_availableTokens = availableTokens,
                 rl_retryAfter = retryAfter,
                 rl_accepted = False,
                 rl_limit = swl_limit l\<rparr>,
                w1)))"

definition swl_consume :: "SlidingWindowLimiter \<Rightarrow> number \<Rightarrow> World \<Rightarrow> RateLimit \<times> World" where
  "swl_consume l n w =
     (case swl_enter l w of ((now, fetched), w1) \<Rightarrow>
      case getOrCreateSlidingWindow l fetched w1 of (i, w2) \<Rightarrow>
      swl_consume_body l n now i w2)"

definition swl_reserve ::
  "SlidingWindowLimiter \<Rightarrow> number \<Rightarrow> number option \<Rightarrow> World
     \<Rightarrow> (error + Reservation) \<times> World" where
  "swl_reserve l n maxTime w =
     (case swl_enter l w of ((now, fetched), w1) \<Rightarrow>
      case getOrCreateSlidingWindow l fetched w1 of (i, w2) \<Rightarrow>
      case maybeTransitionWindow l i now w2 of (j, w3) \<Rightarrow>
      let updatedWindow = slidingWindow_at (swl_id l) j w3;
          currentHitCount = sw_getHitCount updatedWindow now;
          availableTokens = Math_max (Num 0) (fsub (swl_limit l) currentHitCount)
      in if gt n (swl_limit l) then (Inl Error, w3)
         else
           (case (if ge availableTokens n
                  then (now, Num 0, sw_add updatedWindow n)
                  else (let waitTime =
                              sw_calculateTimeForTokens updatedWindow (swl_limit l) n now
                        in (fadd now waitTime, waitTime, updatedWindow)))
            of (timeToAct, waitTime, window1) \<Rightarrow>
              if maxTime \<noteq> None \<and> gt waitTime (the maxTime) then
                (let retryAfter = newDate (fmul (fadd now waitTime) (Num 1000));
                     rateLimit = \<lparr>rl_availableTokens = availableTokens,
                                  rl_retryAfter = retryAfter,
                                  rl_accepted = False,
                                  rl_limit = swl_limit l\<rparr>
                 in (Inl (MaxWaitDurationExceededException rateLimit),
                     set_slidingWindow (swl_id l) j window1 w3))
              else
                (let retryAfter = newDate (fmul timeToAct (Num 1000));
                     rateLimit = \<lparr>rl_availableTokens =
                                    Math_max (Num 0) (fsub availableTokens n),
                                  rl_retryAfter = retryAfter,
                                  rl_accepted = True,
                                  rl_limit = swl_limit l\<rparr>
                 in (Inr \<lparr>res_timeToAct = fmul timeToAct (Num 1000),
                          res_rateLimit = rateLimit\<rparr>,
                     save (swl_id l) (SlidingWindowRef j)
                       (set_slidingWindow (swl_id l) j window1 w3)))))"

definition swl_reset :: "SlidingWindowLimiter \<Rightarrow> World \<Rightarrow> World" where
  "swl_reset l w = delete (swl_id l) w"

section \<open>NoLimiter\<close>

definition nl_consume :: "World \<Rightarrow> RateLimit \<times> World" where
  \<comment> \<open>\<open>new Date()\<close> reads the clock.\<close>
  "nl_consume w =
     (case Date_now w of (ms, w') \<Rightarrow>
        (\<lparr>rl_availableTokens = MAX_SAFE_INTEGER, rl_retryAfter = newDate (Num (of_int ms)),
          rl_accepted = True, rl_limit = MAX_SAFE_INTEGER\<rparr>, w'))"

definition nl_reserve :: "World \<Rightarrow> Reservation \<times> World" where
  "nl_reserve w =
     (case Date_now w of (ms, w') \<Rightarrow>
        (\<lparr>res_timeToAct = Num (of_int ms),
          res_rateLimit = \<lparr>rl_availableTokens = MAX_SAFE_INTEGER,
                           rl_retryAfter = newDate (Num (of_int ms)),
                           rl_accepted = True, rl_limit = MAX_SAFE_INTEGER\<rparr>\<rparr>, w'))"

section \<open>CompoundLimiter\<close>

text \<open>
  A limiter is one of the four engines or a compound of limiters. The constructor of
  \<open>CompoundLimiter\<close> refuses the empty list, so a compound is its first limiter and the
  list of the others. All limiters work on one storage here.
\<close>

datatype Limiter =
    OfTokenBucket TokenBucketLimiter
  | OfFixedWindow FixedWindowLimiter
  | OfSlidingWindow SlidingWindowLimiter
  | NoLimiter
  | CompoundLimiter Limiter "Limiter list"

definition newCompoundLimiter :: "Limiter list \<Rightarrow> error + Limiter" where
  "newCompoundLimiter limiters =
     (case limiters of [] \<Rightarrow> Inl Error | l # ls \<Rightarrow> Inr (CompoundLimiter l ls))"

definition replaces :: "RateLimit \<Rightarrow> RateLimit \<Rightarrow> bool" where
  \<comment> \<open>The condition of the loop in \<open>CompoundLimiter.consume\<close>, on \<open>result\<close> and
      \<open>mostRestrictive\<close>.\<close>
  "replaces result mostRestrictive =
     ((\<not> rl_accepted result \<and> rl_accepted mostRestrictive) \<or>
      (\<not> rl_accepted result \<and> \<not> rl_accepted mostRestrictive \<and>
         gt (rl_retryAfter result) (rl_retryAfter mostRestrictive)) \<or>
      (rl_accepted result \<and> rl_accepted mostRestrictive \<and>
         lt (rl_availableTokens result) (rl_availableTokens mostRestrictive)))"

fun mostRestrictive :: "RateLimit \<Rightarrow> RateLimit list \<Rightarrow> RateLimit" where
  \<comment> \<open>The loop: \<open>mostRestrictive m rs\<close> starts from \<open>results[0] = m\<close> and runs over
      \<open>results.slice(1) = rs\<close>.\<close>
  "mostRestrictive m [] = m"
| "mostRestrictive m (result # rs) =
     mostRestrictive (if replaces result m then result else m) rs"

text \<open>
  \<open>Promise.all\<close> over \<open>limiters.map(limiter => limiter.consume(tokens))\<close>: \<open>map\<close> calls
  every \<open>consume\<close> in list order, and each call runs up to its first pending \<open>await\<close>,
  that is through \<open>TimeUtil.now()\<close> and \<open>storage.fetch\<close> (\<open>start\<close>; a \<open>NoLimiter\<close> runs
  to its end, an inner compound starts its own limiters). Only then do the continuations
  run, each call one stretch at a time in the order of the calls: first the rest of every
  \<open>getOrCreate...\<close> (\<open>create\<close>), then every body up to and including its \<open>save\<close>
  (\<open>finish\<close>). So every call has fetched before any call saves. What remains of a call
  after its \<open>save\<close> builds the RateLimit from values it already holds.
\<close>

datatype Started =
    S_TokenBucket TokenBucketLimiter number "Ref option"
  | S_FixedWindow FixedWindowLimiter number "Ref option"
  | S_SlidingWindow SlidingWindowLimiter number "Ref option"
  | S_NoLimiter RateLimit
  | S_Compound Started "Started list"

datatype Ready =
    R_TokenBucket TokenBucketLimiter number nat
  | R_FixedWindow FixedWindowLimiter number nat
  | R_SlidingWindow SlidingWindowLimiter number nat
  | R_NoLimiter RateLimit
  | R_Compound Ready "Ready list"

fun start :: "Limiter \<Rightarrow> World \<Rightarrow> Started \<times> World"
  and start_each :: "Limiter list \<Rightarrow> World \<Rightarrow> Started list \<times> World"
where
  "start (OfTokenBucket l) w =
     (case tbl_enter l w of ((now, fetched), w1) \<Rightarrow> (S_TokenBucket l now fetched, w1))"
| "start (OfFixedWindow l) w =
     (case fwl_enter l w of ((now, fetched), w1) \<Rightarrow> (S_FixedWindow l now fetched, w1))"
| "start (OfSlidingWindow l) w =
     (case swl_enter l w of ((now, fetched), w1) \<Rightarrow> (S_SlidingWindow l now fetched, w1))"
| "start NoLimiter w = (case nl_consume w of (r, w1) \<Rightarrow> (S_NoLimiter r, w1))"
| "start (CompoundLimiter l ls) w =
     (case start l w of (s, w1) \<Rightarrow>
      case start_each ls w1 of (ss, w2) \<Rightarrow> (S_Compound s ss, w2))"
| "start_each [] w = ([], w)"
| "start_each (l # ls) w =
     (case start l w of (s, w1) \<Rightarrow>
      case start_each ls w1 of (ss, w2) \<Rightarrow> (s # ss, w2))"

fun create :: "Started \<Rightarrow> World \<Rightarrow> Ready \<times> World"
  and create_each :: "Started list \<Rightarrow> World \<Rightarrow> Ready list \<times> World"
where
  "create (S_TokenBucket l now fetched) w =
     (case getOrCreateBucket l fetched w of (i, w1) \<Rightarrow> (R_TokenBucket l now i, w1))"
| "create (S_FixedWindow l now fetched) w =
     (case getOrCreateWindow l now fetched w of (i, w1) \<Rightarrow> (R_FixedWindow l now i, w1))"
| "create (S_SlidingWindow l now fetched) w =
     (case getOrCreateSlidingWindow l fetched w of (i, w1) \<Rightarrow> (R_SlidingWindow l now i, w1))"
| "create (S_NoLimiter r) w = (R_NoLimiter r, w)"
| "create (S_Compound s ss) w =
     (case create s w of (r, w1) \<Rightarrow>
      case create_each ss w1 of (rs, w2) \<Rightarrow> (R_Compound r rs, w2))"
| "create_each [] w = ([], w)"
| "create_each (s # ss) w =
     (case create s w of (r, w1) \<Rightarrow>
      case create_each ss w1 of (rs, w2) \<Rightarrow> (r # rs, w2))"

fun finish :: "number \<Rightarrow> Ready \<Rightarrow> World \<Rightarrow> RateLimit \<times> World"
  and finish_each :: "number \<Rightarrow> Ready list \<Rightarrow> World \<Rightarrow> RateLimit list \<times> World"
where
  "finish n (R_TokenBucket l now i) w = tbl_consume_body l n now i w"
| "finish n (R_FixedWindow l now i) w = fwl_consume_body l n now i w"
| "finish n (R_SlidingWindow l now i) w = swl_consume_body l n now i w"
| "finish n (R_NoLimiter r) w = (r, w)"
| "finish n (R_Compound r rs) w =
     (case finish n r w of (x, w1) \<Rightarrow>
      case finish_each n rs w1 of (xs, w2) \<Rightarrow> (mostRestrictive x xs, w2))"
| "finish_each n [] w = ([], w)"
| "finish_each n (r # rs) w =
     (case finish n r w of (x, w1) \<Rightarrow>
      case finish_each n rs w1 of (xs, w2) \<Rightarrow> (x # xs, w2))"

definition consume :: "Limiter \<Rightarrow> number \<Rightarrow> World \<Rightarrow> RateLimit \<times> World" where
  \<comment> \<open>\<open>await limiter.consume(tokens)\<close>.\<close>
  "consume l n w =
     (case start l w of (s, w1) \<Rightarrow>
      case create s w1 of (r, w2) \<Rightarrow> finish n r w2)"

definition consume_each :: "Limiter list \<Rightarrow> number \<Rightarrow> World \<Rightarrow> RateLimit list \<times> World" where
  \<comment> \<open>\<open>await Promise.all(limiters.map(limiter => limiter.consume(tokens)))\<close>.\<close>
  "consume_each ls n w =
     (case start_each ls w of (ss, w1) \<Rightarrow>
      case create_each ss w1 of (rs, w2) \<Rightarrow> finish_each n rs w2)"

fun reserve ::
  "Limiter \<Rightarrow> number \<Rightarrow> number option \<Rightarrow> World \<Rightarrow> (error + Reservation) \<times> World" where
  "reserve (OfTokenBucket l) n maxTime w = tbl_reserve l n maxTime w"
| "reserve (OfFixedWindow l) n maxTime w = fwl_reserve l n maxTime w"
| "reserve (OfSlidingWindow l) n maxTime w = swl_reserve l n maxTime w"
| "reserve NoLimiter n maxTime w = (case nl_reserve w of (r, w') \<Rightarrow> (Inr r, w'))"
| "reserve (CompoundLimiter l ls) n maxTime w = (Inl ReserveNotSupportedError, w)"

fun reset :: "Limiter \<Rightarrow> World \<Rightarrow> World" where
  "reset (OfTokenBucket l) w = tbl_reset l w"
| "reset (OfFixedWindow l) w = fwl_reset l w"
| "reset (OfSlidingWindow l) w = swl_reset l w"
| "reset NoLimiter w = w"
| "reset (CompoundLimiter l ls) w = fold reset ls (reset l w)"

section \<open>Sequences of calls\<close>

datatype Call = Consume number | Reserve number "number option" | Reset

fun call :: "Limiter \<Rightarrow> Call \<Rightarrow> World \<Rightarrow> RateLimit list \<times> World" where
  \<comment> \<open>One call, with the \<open>RateLimit\<close> objects it produces: the one returned, the one
      inside the returned \<open>Reservation\<close>, or the one carried by the error.\<close>
  "call l (Consume n) w = (case consume l n w of (r, w') \<Rightarrow> ([r], w'))"
| "call l (Reserve n maxTime) w =
     (case reserve l n maxTime w of
        (Inr res, w') \<Rightarrow> ([res_rateLimit res], w')
      | (Inl (MaxWaitDurationExceededException r), w') \<Rightarrow> ([r], w')
      | (Inl (MaxWaitDurationExceededError r), w') \<Rightarrow> ([r], w')
      | (Inl _, w') \<Rightarrow> ([], w'))"
| "call l Reset w = ([], reset l w)"

definition at_time :: "int \<Rightarrow> World \<Rightarrow> World" where
  \<comment> \<open>The clock standing at \<open>ms\<close>.\<close>
  "at_time ms w = w\<lparr>clock := ms, ticks := []\<rparr>"

fun run :: "Limiter \<Rightarrow> (Call \<times> int) list \<Rightarrow> World \<Rightarrow> RateLimit list" where
  \<comment> \<open>Calls one after the other, each awaited, each with the clock standing at its time.\<close>
  "run l [] w = []"
| "run l ((c, ms) # cs) w =
     (case call l c (at_time ms w) of (rs, w') \<Rightarrow> rs @ run l cs w')"

section \<open>Notions of the specification\<close>

fun finite_number :: "number \<Rightarrow> bool" where
  \<comment> \<open>A number other than \<open>NaN\<close> and the infinities; for the time value of a Date: a
      valid Date.\<close>
  "finite_number (Num x) = True"
| "finite_number a = False"

fun the_Num :: "number \<Rightarrow> rat" where
  \<comment> \<open>The value of a finite number.\<close>
  "the_Num (Num x) = x"
| "the_Num a = 0"

section \<open>Concrete limiters\<close>

definition api_bucket :: TokenBucketLimiter where
  \<comment> \<open>\<open>new TokenBucketLimiter('api', 10, Rate.perSecond(1), storage)\<close>\<close>
  "api_bucket =
     \<lparr>tbl_id = ''api'', tbl_burstSize = Num 10,
      tbl_rate = \<lparr>intervalInSeconds = Num 1, amount = Num 1\<rparr>\<rparr>"

definition quota5 :: FixedWindowLimiter where
  \<comment> \<open>\<open>new FixedWindowLimiter('quota', 5, 10, storage)\<close>\<close>
  "quota5 = \<lparr>fwl_id = ''quota'', fwl_limit = Num 5, fwl_intervalInSeconds = Num 10\<rparr>"

definition test_bucket :: TokenBucketLimiter where
  \<comment> \<open>\<open>new TokenBucketLimiter('test', 10, Rate.perSecond(1), storage)\<close>\<close>
  "test_bucket =
     \<lparr>tbl_id = ''test'', tbl_burstSize = Num 10,
      tbl_rate = \<lparr>intervalInSeconds = Num 1, amount = Num 1\<rparr>\<rparr>"

definition test_fixed :: FixedWindowLimiter where
  \<comment> \<open>\<open>new FixedWindowLimiter('test', 10, 60, storage)\<close>\<close>
  "test_fixed = \<lparr>fwl_id = ''test'', fwl_limit = Num 10, fwl_intervalInSeconds = Num 60\<rparr>"

definition test_sliding :: SlidingWindowLimiter where
  \<comment> \<open>\<open>new SlidingWindowLimiter('test', 10, 60, storage)\<close>\<close>
  "test_sliding = \<lparr>swl_id = ''test'', swl_limit = Num 10, swl_intervalInSeconds = Num 60\<rparr>"

section \<open>Whole numbers are computed exactly\<close>

lemma round_half_even_of_int: "round_half_even (of_int m) = m"
  by (simp add: round_half_even_def)

lemma pow2_nonpos: "d \<le> 0 \<Longrightarrow> pow2 d = 1 / 2 ^ nat (- d)"
  by (auto simp: pow2_def)

lemma rnd_of_int:
  assumes "\<bar>k\<bar> < 9007199254740992"
  shows "rnd (of_int k) = Num (of_int k)"
proof (cases "k = 0")
  case True
  then show ?thesis by (simp add: rnd_def)
next
  case False
  then have pos: "0 < \<bar>k\<bar>" by simp
  have q: "quotient_of \<bar>rat_of_int k\<bar> = (\<bar>k\<bar>, 1)"
    by (metis of_int_abs Rat.of_int_def quotient_of_int)
  define d where "d = bitlen \<bar>k\<bar> - 1"
  have b1: "bitlen 1 = 1" by (simp add: bitlen_alt_def)
  from bitlen_bounds[OF pos] have lo: "2 ^ nat d \<le> \<bar>k\<bar>" by (simp add: d_def)
  have "bitlen \<bar>k\<bar> \<ge> 1" using pos by (auto simp: bitlen_alt_def)
  then have d0: "0 \<le> d" by (simp add: d_def)
  have "\<bar>k\<bar> < 2 ^ nat 53" using assms by simp
  then have "bitlen \<bar>k\<bar> \<le> 53"
    by (subst bitlen_le_iff_power) auto
  then have d52: "d \<le> 52" by (simp add: d_def)
  have "(2::rat) ^ nat d \<le> of_int \<bar>k\<bar>"
    using lo by (metis of_int_le_iff of_int_numeral of_int_power)
  then have "pow2 d \<le> \<bar>rat_of_int k\<bar>"
    using d0 by (simp add: pow2_def)
  then have il: "ilog2 (of_int k) = d"
    by (simp add: ilog2_def q b1 d_def Let_def)
  define j where "j = nat (52 - d)"
  have qq: "pow2 (max d (- 1022) - 52) = 1 / 2 ^ j"
    using d0 d52 by (simp add: pow2_nonpos j_def max_def)
  have xq: "rat_of_int k * 2 ^ j = of_int (k * 2 ^ j)"
    by simp
  have y: "rat_of_int (round_half_even (rat_of_int k * 2 ^ j)) / 2 ^ j = rat_of_int k"
    unfolding xq round_half_even_of_int by simp
  have bnd: "\<bar>rat_of_int k\<bar> < pow2 1024"
  proof -
    have "\<bar>rat_of_int k\<bar> < 9007199254740992" using assms by linarith
    also have "\<dots> \<le> pow2 1024" by (simp add: pow2_def)
    finally show ?thesis .
  qed
  then have "\<not> pow2 1024 \<le> rat_of_int k" "\<not> rat_of_int k \<le> - pow2 1024"
    by linarith+
  with False show ?thesis
    by (simp add: rnd_def il qq y Let_def)
qed

lemma rnd_numeral [simp]:
  "numeral n < (9007199254740992::int) \<Longrightarrow> rnd (numeral n) = Num (numeral n)"
  "numeral n < (9007199254740992::int) \<Longrightarrow> rnd (- numeral n) = Num (- numeral n)"
  "rnd 0 = Num 0" "rnd 1 = Num 1"
  using rnd_of_int[of "numeral n"] rnd_of_int[of "- numeral n"] rnd_of_int[of 0] rnd_of_int[of 1]
  by simp_all

section \<open>C4: the most restrictive outcome\<close>

lemma lt_irrefl [simp]: "\<not> lt a a"
  by (cases a) simp_all

lemma lt_NaN [simp]: "\<not> lt a NaN" "\<not> lt NaN a"
  by (cases a; simp)+

lemma lt_asym: "lt a b \<Longrightarrow> \<not> lt b a"
  by (cases a; cases b) simp_all

lemma lt_chain: "b \<noteq> NaN \<Longrightarrow> \<not> lt b a \<Longrightarrow> \<not> lt c b \<Longrightarrow> \<not> lt c a"
  by (cases a; cases b; cases c) simp_all

lemma lt_finite: "finite_number a \<Longrightarrow> finite_number b \<Longrightarrow> lt a b = (the_Num a < the_Num b)"
  by (cases a; cases b) simp_all

lemma mostRestrictive_mem: "mostRestrictive m rs \<in> set (m # rs)"
proof (induction rs arbitrary: m)
  case Nil
  show ?case by simp
next
  case (Cons a rs)
  from Cons.IH[of "if replaces a m then a else m"] show ?case
    by (cases "replaces a m") auto
qed

lemma mostRestrictive_invalid_date:
  "\<not> rl_accepted m \<Longrightarrow> rl_retryAfter m = NaN \<Longrightarrow> mostRestrictive m rs = m"
  by (induction rs) (simp_all add: replaces_def gt_def)

lemma mostRestrictive_NaN_tokens:
  "\<forall>r\<in>set rs. rl_accepted r \<Longrightarrow> rl_accepted m \<Longrightarrow> rl_availableTokens m = NaN
     \<Longrightarrow> mostRestrictive m rs = m"
  by (induction rs) (simp_all add: replaces_def)

lemma mostRestrictive_rejected:
  assumes "\<exists>r\<in>set (m # rs). \<not> rl_accepted r"
  shows "\<not> rl_accepted (mostRestrictive m rs) \<and>
         (\<forall>r\<in>set (m # rs). \<not> rl_accepted r \<longrightarrow>
            \<not> gt (rl_retryAfter r) (rl_retryAfter (mostRestrictive m rs)))"
  using assms
proof (induction rs arbitrary: m)
  case Nil
  then show ?case by (simp add: gt_def)
next
  case (Cons a rs)
  define m' where "m' = (if replaces a m then a else m)"
  define f where "f = mostRestrictive m' rs"
  have km: "\<not> rl_accepted m \<longrightarrow>
              \<not> rl_accepted m' \<and> \<not> lt (rl_retryAfter m') (rl_retryAfter m)"
    using lt_asym[of "rl_retryAfter m" "rl_retryAfter a"]
    by (simp add: m'_def replaces_def gt_def)
  have ka: "\<not> rl_accepted a \<longrightarrow>
              \<not> rl_accepted m' \<and> \<not> lt (rl_retryAfter m') (rl_retryAfter a)"
    by (auto simp: m'_def replaces_def gt_def)
  from Cons.prems km ka have ex: "\<exists>r\<in>set (m' # rs). \<not> rl_accepted r"
    by auto
  from Cons.IH[OF ex] have ih: "\<not> rl_accepted f"
    "\<forall>r\<in>set (m' # rs). \<not> rl_accepted r \<longrightarrow> \<not> lt (rl_retryAfter f) (rl_retryAfter r)"
    unfolding f_def gt_def by blast+
  have step: "\<not> lt (rl_retryAfter f) (rl_retryAfter x)"
    if x: "\<not> rl_accepted m'" "\<not> lt (rl_retryAfter m') (rl_retryAfter x)" for x
  proof (cases "rl_retryAfter m' = NaN")
    case True
    with x(1) have "f = m'"
      unfolding f_def by (rule mostRestrictive_invalid_date)
    with True show ?thesis by simp
  next
    case False
    from ih(2) x(1) have "\<not> lt (rl_retryAfter f) (rl_retryAfter m')" by simp
    with False x(2) show ?thesis by (rule lt_chain)
  qed
  from km step have 1: "\<not> rl_accepted m \<longrightarrow> \<not> lt (rl_retryAfter f) (rl_retryAfter m)"
    by blast
  from ka step have 2: "\<not> rl_accepted a \<longrightarrow> \<not> lt (rl_retryAfter f) (rl_retryAfter a)"
    by blast
  have e: "mostRestrictive m (a # rs) = f"
    by (simp add: m'_def f_def)
  from ih 1 2 show ?case
    unfolding e gt_def by simp
qed

lemma mostRestrictive_accepted:
  assumes "\<forall>r\<in>set (m # rs). rl_accepted r"
  shows "rl_accepted (mostRestrictive m rs) \<and>
         (\<forall>r\<in>set (m # rs).
            \<not> lt (rl_availableTokens r) (rl_availableTokens (mostRestrictive m rs)))"
  using assms
proof (induction rs arbitrary: m)
  case Nil
  then show ?case by simp
next
  case (Cons a rs)
  from Cons.prems have acc: "rl_accepted a" "rl_accepted m" "\<forall>r\<in>set rs. rl_accepted r"
    by simp_all
  define m' where "m' = (if replaces a m then a else m)"
  define f where "f = mostRestrictive m' rs"
  from acc have k: "rl_accepted m'"
    "\<not> lt (rl_availableTokens m) (rl_availableTokens m')"
    "\<not> lt (rl_availableTokens a) (rl_availableTokens m')"
    using lt_asym[of "rl_availableTokens a" "rl_availableTokens m"]
    by (simp_all add: m'_def replaces_def)
  from acc k have all: "\<forall>r\<in>set (m' # rs). rl_accepted r" by simp
  from Cons.IH[OF all] have ih: "rl_accepted f"
    "\<forall>r\<in>set (m' # rs). \<not> lt (rl_availableTokens r) (rl_availableTokens f)"
    unfolding f_def by blast+
  have step: "\<not> lt (rl_availableTokens x) (rl_availableTokens f)"
    if x: "\<not> lt (rl_availableTokens x) (rl_availableTokens m')" for x
  proof (cases "rl_availableTokens m' = NaN")
    case True
    from acc(3) k(1) True have "f = m'"
      unfolding f_def by (rule mostRestrictive_NaN_tokens)
    with True show ?thesis by simp
  next
    case False
    from ih(2) have "\<not> lt (rl_availableTokens m') (rl_availableTokens f)" by simp
    from False this x show ?thesis by (rule lt_chain)
  qed
  from k step have 1: "\<not> lt (rl_availableTokens m) (rl_availableTokens f)"
    and 2: "\<not> lt (rl_availableTokens a) (rl_availableTokens f)"
    by blast+
  have e: "mostRestrictive m (a # rs) = f"
    by (simp add: m'_def f_def)
  from ih 1 2 show ?case
    unfolding e by simp
qed

lemma mostRestrictive_Max:
  assumes "\<exists>r\<in>set (m # rs). \<not> rl_accepted r"
    and "\<forall>r\<in>set (m # rs). \<not> rl_accepted r \<longrightarrow> finite_number (rl_retryAfter r)"
  shows "rl_retryAfter (mostRestrictive m rs) =
           Num (Max (the_Num ` rl_retryAfter ` {r \<in> set (m # rs). \<not> rl_accepted r}))"
proof -
  let ?R = "{r \<in> set (m # rs). \<not> rl_accepted r}"
  let ?f = "mostRestrictive m rs"
  from mostRestrictive_rejected[OF assms(1)] mostRestrictive_mem[of m rs]
  have 1: "?f \<in> ?R"
    and 2: "\<forall>r\<in>?R. \<not> lt (rl_retryAfter ?f) (rl_retryAfter r)"
    unfolding gt_def by blast+
  from 1 assms(2) have fin: "finite_number (rl_retryAfter ?f)" by blast
  have le: "the_Num (rl_retryAfter r) \<le> the_Num (rl_retryAfter ?f)" if "r \<in> ?R" for r
  proof -
    from that assms(2) have "finite_number (rl_retryAfter r)" by blast
    from lt_finite[OF fin this] 2 that show ?thesis by auto
  qed
  have "Max (the_Num ` rl_retryAfter ` ?R) = the_Num (rl_retryAfter ?f)"
  proof (rule Max_eqI)
    show "finite (the_Num ` rl_retryAfter ` ?R)" by simp
    show "\<And>y. y \<in> the_Num ` rl_retryAfter ` ?R \<Longrightarrow> y \<le> the_Num (rl_retryAfter ?f)"
      using le by blast
    show "the_Num (rl_retryAfter ?f) \<in> the_Num ` rl_retryAfter ` ?R"
      using 1 by blast
  qed
  with fin show ?thesis by (cases "rl_retryAfter ?f") simp_all
qed

lemma mostRestrictive_Min:
  assumes "\<forall>r\<in>set (m # rs). rl_accepted r"
    and "\<forall>r\<in>set (m # rs). finite_number (rl_availableTokens r)"
  shows "rl_availableTokens (mostRestrictive m rs) =
           Num (Min (the_Num ` rl_availableTokens ` set (m # rs)))"
proof -
  let ?f = "mostRestrictive m rs"
  from mostRestrictive_accepted[OF assms(1)] mostRestrictive_mem[of m rs]
  have 1: "?f \<in> set (m # rs)"
    and 2: "\<forall>r\<in>set (m # rs). \<not> lt (rl_availableTokens r) (rl_availableTokens ?f)"
    by blast+
  from 1 assms(2) have fin: "finite_number (rl_availableTokens ?f)" by blast
  have le: "the_Num (rl_availableTokens ?f) \<le> the_Num (rl_availableTokens r)"
    if "r \<in> set (m # rs)" for r
  proof -
    from that assms(2) have "finite_number (rl_availableTokens r)" by blast
    from lt_finite[OF this fin] 2 that show ?thesis by auto
  qed
  have "Min (the_Num ` rl_availableTokens ` set (m # rs)) = the_Num (rl_availableTokens ?f)"
  proof (rule Min_eqI)
    show "finite (the_Num ` rl_availableTokens ` set (m # rs))" by simp
    show "\<And>y. y \<in> the_Num ` rl_availableTokens ` set (m # rs) \<Longrightarrow>
            the_Num (rl_availableTokens ?f) \<le> y"
      using le by blast
    show "the_Num (rl_availableTokens ?f) \<in> the_Num ` rl_availableTokens ` set (m # rs)"
      using 1 by blast
  qed
  with fin show ?thesis by (cases "rl_availableTokens ?f") simp_all
qed

lemma compound_consume_results:
  "\<exists>r rs. fst (consume_each (l # ls) n w) = r # rs \<and>
          fst (consume (CompoundLimiter l ls) n w) = mostRestrictive r rs"
  by (simp add: consume_def consume_each_def split: prod.splits)

lemmas number_defs =
  ge_def gt_def fsub_def Math_max_def Math_min_def truthy_def newDate_def

lemmas storage_defs =
  fetch_def save_def deref_def Date_now_def TimeUtil_now_def at_time_def

lemmas token_bucket_defs =
  tbl_consume_def tbl_enter_def getOrCreateBucket_def tbl_consume_body_def tbl_reserve_def
  tbl_reserve_body_def new_bucket_def set_bucket_def bucket_at_def newTokenBucket_def
  tb_getExpirationTime_def getAvailableTokens_def calculateTimeForTokens_def
  calculateNewTokensDuringInterval_def

lemmas fixed_window_defs =
  fwl_consume_def fwl_enter_def getOrCreateWindow_def fwl_consume_body_def fwl_reserve_def
  new_window_def set_window_def window_at_def w_getAvailableTokens_def w_add_def
  w_calculateTimeForTokens_def w_getExpirationTime_def

text \<open>
  C4 read to the letter fails where a rejected outcome has no retryAt to compare. A token
  bucket of 10 tokens at 1 per second and a fixed window of 5 per 10 seconds, both on fresh
  keys with the clock at 0, are asked for 9000000000010 tokens. The bucket answers with a
  wait of 9000000000000 seconds, and \<open>new Date(9e15)\<close> is beyond the range of Date: an
  Invalid Date, whose time value is \<open>NaN\<close>. The window answers with the Date of 10000 ms.
  The loop starts from the bucket's outcome and keeps it, because \<open>10000 > NaN\<close> is
  false: the combined outcome carries the Invalid Date, not the largest retryAt, which is
  the window's.
\<close>

theorem compound_consume_keeps_invalid_date:
  "fst (consume_each [OfTokenBucket api_bucket, OfFixedWindow quota5]
          (Num 9000000000010) empty_storage) =
     [\<lparr>rl_availableTokens = Num 10, rl_retryAfter = NaN, rl_accepted = False,
       rl_limit = Num 10\<rparr>,
      \<lparr>rl_availableTokens = Num 5, rl_retryAfter = Num 10000, rl_accepted = False,
       rl_limit = Num 5\<rparr>] \<and>
   fst (consume (CompoundLimiter (OfTokenBucket api_bucket) [OfFixedWindow quota5])
          (Num 9000000000010) empty_storage) =
     \<lparr>rl_availableTokens = Num 10, rl_retryAfter = NaN, rl_accepted = False,
      rl_limit = Num 10\<rparr>"
  by (simp add: consume_def consume_each_def api_bucket_def quota5_def empty_storage_def
      replaces_def token_bucket_defs fixed_window_defs storage_defs number_defs Let_def)

text \<open>
  C4, amended: for every compound limiter (its list of engines is not empty) and every
  \<open>consume(tokens)\<close>, the combined RateLimit is one of the underlying outcomes. If at
  least one outcome is rejected it is a rejected one, no rejected outcome has a retryAt
  that compares greater than its retryAt, and when the retryAt of every rejected outcome is
  a valid Date its retryAt is the largest of them. If every outcome is accepted it is an
  accepted one, no outcome has a remaining count that compares less than its remaining
  count, and when every remaining count is a finite number its remaining count is the
  smallest of them.
\<close>

theorem compound_consume_most_restrictive:
  "fst (consume (CompoundLimiter l ls) n w) \<in> set (fst (consume_each (l # ls) n w)) \<and>
   ((\<exists>r\<in>set (fst (consume_each (l # ls) n w)). \<not> rl_accepted r) \<longrightarrow>
      \<not> rl_accepted (fst (consume (CompoundLimiter l ls) n w)) \<and>
      (\<forall>r\<in>set (fst (consume_each (l # ls) n w)). \<not> rl_accepted r \<longrightarrow>
         \<not> gt (rl_retryAfter r) (rl_retryAfter (fst (consume (CompoundLimiter l ls) n w)))) \<and>
      ((\<forall>r\<in>set (fst (consume_each (l # ls) n w)).
          \<not> rl_accepted r \<longrightarrow> finite_number (rl_retryAfter r)) \<longrightarrow>
       rl_retryAfter (fst (consume (CompoundLimiter l ls) n w)) =
         Num (Max (the_Num ` rl_retryAfter `
                     {r \<in> set (fst (consume_each (l # ls) n w)). \<not> rl_accepted r})))) \<and>
   ((\<forall>r\<in>set (fst (consume_each (l # ls) n w)). rl_accepted r) \<longrightarrow>
      rl_accepted (fst (consume (CompoundLimiter l ls) n w)) \<and>
      (\<forall>r\<in>set (fst (consume_each (l # ls) n w)).
         \<not> lt (rl_availableTokens r)
              (rl_availableTokens (fst (consume (CompoundLimiter l ls) n w)))) \<and>
      ((\<forall>r\<in>set (fst (consume_each (l # ls) n w)). finite_number (rl_availableTokens r)) \<longrightarrow>
       rl_availableTokens (fst (consume (CompoundLimiter l ls) n w)) =
         Num (Min (the_Num ` rl_availableTokens ` set (fst (consume_each (l # ls) n w))))))"
proof -
  from compound_consume_results[of l ls n w] obtain r rs where
    e: "fst (consume_each (l # ls) n w) = r # rs"
       "fst (consume (CompoundLimiter l ls) n w) = mostRestrictive r rs"
    by blast
  show ?thesis
    unfolding e
    using mostRestrictive_mem[of r rs] mostRestrictive_rejected[of r rs]
      mostRestrictive_accepted[of r rs] mostRestrictive_Max[of r rs] mostRestrictive_Min[of r rs]
    by blast
qed

theorem compound_consume_most_restrictive_witness:
  "fst (consume_each [OfTokenBucket api_bucket, OfFixedWindow quota5] (Num 1) empty_storage) =
     [\<lparr>rl_availableTokens = Num 9, rl_retryAfter = Num 0, rl_accepted = True,
       rl_limit = Num 10\<rparr>,
      \<lparr>rl_availableTokens = Num 4, rl_retryAfter = Num 0, rl_accepted = True,
       rl_limit = Num 5\<rparr>] \<and>
   rl_accepted
     (fst (consume (CompoundLimiter (OfTokenBucket api_bucket) [OfFixedWindow quota5])
             (Num 1) empty_storage)) \<and>
   rl_availableTokens
     (fst (consume (CompoundLimiter (OfTokenBucket api_bucket) [OfFixedWindow quota5])
             (Num 1) empty_storage)) = Num 4 \<and>
   fst (consume_each [OfTokenBucket api_bucket, OfFixedWindow quota5] (Num 6) empty_storage) =
     [\<lparr>rl_availableTokens = Num 4, rl_retryAfter = Num 0, rl_accepted = True,
       rl_limit = Num 10\<rparr>,
      \<lparr>rl_availableTokens = Num 5, rl_retryAfter = Num 10000, rl_accepted = False,
       rl_limit = Num 5\<rparr>] \<and>
   \<not> rl_accepted
     (fst (consume (CompoundLimiter (OfTokenBucket api_bucket) [OfFixedWindow quota5])
             (Num 6) empty_storage)) \<and>
   rl_retryAfter
     (fst (consume (CompoundLimiter (OfTokenBucket api_bucket) [OfFixedWindow quota5])
             (Num 6) empty_storage)) = Num 10000"
proof -
  have e1: "fst (consume_each [OfTokenBucket api_bucket, OfFixedWindow quota5] (Num 1)
                   empty_storage) =
     [\<lparr>rl_availableTokens = Num 9, rl_retryAfter = Num 0, rl_accepted = True,
       rl_limit = Num 10\<rparr>,
      \<lparr>rl_availableTokens = Num 4, rl_retryAfter = Num 0, rl_accepted = True,
       rl_limit = Num 5\<rparr>]"
    by (simp add: consume_each_def api_bucket_def quota5_def empty_storage_def
        token_bucket_defs fixed_window_defs storage_defs number_defs Let_def)
  have e2: "fst (consume_each [OfTokenBucket api_bucket, OfFixedWindow quota5] (Num 6)
                   empty_storage) =
     [\<lparr>rl_availableTokens = Num 4, rl_retryAfter = Num 0, rl_accepted = True,
       rl_limit = Num 10\<rparr>,
      \<lparr>rl_availableTokens = Num 5, rl_retryAfter = Num 10000, rl_accepted = False,
       rl_limit = Num 5\<rparr>]"
    by (simp add: consume_each_def api_bucket_def quota5_def empty_storage_def
        token_bucket_defs fixed_window_defs storage_defs number_defs Let_def)
  have s: "{r. (r = \<lparr>rl_availableTokens = Num 4, rl_retryAfter = Num 0, rl_accepted = True,
                     rl_limit = Num 10\<rparr>
              \<or> r = \<lparr>rl_availableTokens = Num 5, rl_retryAfter = Num 10000,
                      rl_accepted = False, rl_limit = Num 5\<rparr>) \<and> \<not> rl_accepted r} =
           {\<lparr>rl_availableTokens = Num 5, rl_retryAfter = Num 10000, rl_accepted = False,
             rl_limit = Num 5\<rparr>}"
    by auto
  from compound_consume_most_restrictive
         [of "OfTokenBucket api_bucket" "[OfFixedWindow quota5]" "Num 1" empty_storage]
  have a: "rl_accepted
     (fst (consume (CompoundLimiter (OfTokenBucket api_bucket) [OfFixedWindow quota5])
             (Num 1) empty_storage)) \<and>
   rl_availableTokens
     (fst (consume (CompoundLimiter (OfTokenBucket api_bucket) [OfFixedWindow quota5])
             (Num 1) empty_storage)) = Num 4"
    unfolding e1 by simp
  from compound_consume_most_restrictive
         [of "OfTokenBucket api_bucket" "[OfFixedWindow quota5]" "Num 6" empty_storage]
  have b: "\<not> rl_accepted
     (fst (consume (CompoundLimiter (OfTokenBucket api_bucket) [OfFixedWindow quota5])
             (Num 6) empty_storage)) \<and>
   rl_retryAfter
     (fst (consume (CompoundLimiter (OfTokenBucket api_bucket) [OfFixedWindow quota5])
             (Num 6) empty_storage)) = Num 10000"
    unfolding e2 by (simp add: s)
  from e1 e2 a b show ?thesis by blast
qed

section \<open>C7: a reservation that would wait too long\<close>

lemmas sliding_window_defs =
  swl_consume_def swl_enter_def getOrCreateSlidingWindow_def maybeTransitionWindow_def
  swl_consume_body_def swl_reserve_def new_slidingWindow_def set_slidingWindow_def
  slidingWindow_at_def newSlidingWindow_def sw_getExpirationTime_def
  createFromPreviousWindow_def sw_isExpired_def sw_add_def sw_getHitCount_def
  sw_calculateTimeForTokens_def

text \<open>
  C7 has one error, MaxWaitExceeded, raised by the three engines. The library has two
  classes for it, which have nothing in common but \<open>Error\<close>:
  \<open>MaxWaitDurationExceededError\<close>, which the package exports, the documentation of
  \<open>LimiterInterface.reserve\<close> announces and the tests of the three engines expect, and
  \<open>MaxWaitDurationExceededException\<close>. On a fresh storage with the clock at 0, after
  \<open>consume(10)\<close> on a limiter of 10, \<open>reserve(5, 1)\<close> has to wait longer than 1 second
  on each engine. The fixed window limiter raises \<open>MaxWaitDurationExceededError\<close>; the
  token bucket limiter and the sliding window limiter raise
  \<open>MaxWaitDurationExceededException\<close>, which a caller that catches
  \<open>MaxWaitDurationExceededError\<close> does not catch. Each error carries the rejected
  RateLimit: nothing available, retryAt at the end of the wait.
\<close>

theorem reserve_max_wait_exceeded_classes:
  "fst (reserve (OfTokenBucket test_bucket) (Num 5) (Some (Num 1))
          (snd (consume (OfTokenBucket test_bucket) (Num 10) empty_storage))) =
     Inl (MaxWaitDurationExceededException
            \<lparr>rl_availableTokens = Num 0, rl_retryAfter = Num 5000, rl_accepted = False,
             rl_limit = Num 10\<rparr>) \<and>
   fst (reserve (OfSlidingWindow test_sliding) (Num 5) (Some (Num 1))
          (snd (consume (OfSlidingWindow test_sliding) (Num 10) empty_storage))) =
     Inl (MaxWaitDurationExceededException
            \<lparr>rl_availableTokens = Num 0, rl_retryAfter = Num 60000, rl_accepted = False,
             rl_limit = Num 10\<rparr>) \<and>
   fst (reserve (OfFixedWindow test_fixed) (Num 5) (Some (Num 1))
          (snd (consume (OfFixedWindow test_fixed) (Num 10) empty_storage))) =
     Inl (MaxWaitDurationExceededError
            \<lparr>rl_availableTokens = Num 0, rl_retryAfter = Num 60000, rl_accepted = False,
             rl_limit = Num 10\<rparr>)"
  by (simp add: consume_def test_bucket_def test_sliding_def test_fixed_def empty_storage_def
      token_bucket_defs fixed_window_defs sliding_window_defs storage_defs number_defs Let_def)

section \<open>C3: the remaining count after a reservation\<close>

text \<open>
  C3 says that every RateLimit a token bucket limiter produces has its remaining count in
  \<open>[0, capacity]\<close>. On a bucket of 10 tokens refilled at 1 per second, on a fresh key with
  the clock at 0: \<open>consume(10)\<close> empties the bucket, \<open>reserve(5)\<close> moves the stored
  timer 5 seconds ahead, and \<open>consume(1)\<close> then computes \<open>floor(-5 * 1 / 1) = -5\<close> new
  tokens and returns a rejected RateLimit whose remaining count is \<open>-5\<close>.
\<close>

theorem remaining_negative_after_reserve:
  "run (OfTokenBucket api_bucket)
       [(Consume (Num 10), 0), (Reserve (Num 5) None, 0), (Consume (Num 1), 0)]
       empty_storage =
     [\<lparr>rl_availableTokens = Num 0, rl_retryAfter = Num 0, rl_accepted = True,
       rl_limit = Num 10\<rparr>,
      \<lparr>rl_availableTokens = Num 0, rl_retryAfter = Num 5000, rl_accepted = True,
       rl_limit = Num 10\<rparr>,
      \<lparr>rl_availableTokens = Num (- 5), rl_retryAfter = Num 6000, rl_accepted = False,
       rl_limit = Num 10\<rparr>]"
  by (simp add: consume_def api_bucket_def empty_storage_def token_bucket_defs storage_defs
      number_defs Let_def)

section \<open>C6: reserve on a compound limiter\<close>

text \<open>
  C6: whatever its limiters and its arguments, \<open>reserve\<close> on a CompoundLimiter raises
  ReserveNotSupported, and it leaves the storage, the state objects and the clock as they
  were: no limiter is called and nothing is read or written.
\<close>

theorem compound_reserve_not_supported:
  "reserve (CompoundLimiter l ls) n maxTime w = (Inl ReserveNotSupportedError, w)"
  by simp

section \<open>C9: the fixed window scenario\<close>

text \<open>
  C9: a fixed window limiter of limit 5 and interval 10 seconds on a fresh key at time 0:
  five \<open>consume(1)\<close> at time 0 are accepted with remaining 4, 3, 2, 1, 0; a sixth at time 0
  is rejected with retryAt at 10 seconds (the Date of 10000 ms); and a \<open>consume(1)\<close> at
  time 10 is accepted with remaining 4.
\<close>

theorem fixed_window_scenario:
  assumes "entry (cells w k) = None"
  shows "run (OfFixedWindow \<lparr>fwl_id = k, fwl_limit = Num 5, fwl_intervalInSeconds = Num 10\<rparr>)
         [(Consume (Num 1), 0), (Consume (Num 1), 0), (Consume (Num 1), 0),
          (Consume (Num 1), 0), (Consume (Num 1), 0),
          (Consume (Num 1), 0), (Consume (Num 1), 10000)] w =
     [\<lparr>rl_availableTokens = Num 4, rl_retryAfter = Num 0, rl_accepted = True,
       rl_limit = Num 5\<rparr>,
      \<lparr>rl_availableTokens = Num 3, rl_retryAfter = Num 0, rl_accepted = True,
       rl_limit = Num 5\<rparr>,
      \<lparr>rl_availableTokens = Num 2, rl_retryAfter = Num 0, rl_accepted = True,
       rl_limit = Num 5\<rparr>,
      \<lparr>rl_availableTokens = Num 1, rl_retryAfter = Num 0, rl_accepted = True,
       rl_limit = Num 5\<rparr>,
      \<lparr>rl_availableTokens = Num 0, rl_retryAfter = Num 0, rl_accepted = True,
       rl_limit = Num 5\<rparr>,
      \<lparr>rl_availableTokens = Num 0, rl_retryAfter = Num 10000, rl_accepted = False,
       rl_limit = Num 5\<rparr>,
      \<lparr>rl_availableTokens = Num 4, rl_retryAfter = Num 10000, rl_accepted = True,
       rl_limit = Num 5\<rparr>]"
  using assms
  by (simp add: consume_def fixed_window_defs storage_defs number_defs Let_def)

theorem fixed_window_scenario_witness:
  "entry (cells empty_storage ''quota'') = None \<and>
   run (OfFixedWindow quota5)
         [(Consume (Num 1), 0), (Consume (Num 1), 0), (Consume (Num 1), 0),
          (Consume (Num 1), 0), (Consume (Num 1), 0),
          (Consume (Num 1), 0), (Consume (Num 1), 10000)] empty_storage =
     [\<lparr>rl_availableTokens = Num 4, rl_retryAfter = Num 0, rl_accepted = True,
       rl_limit = Num 5\<rparr>,
      \<lparr>rl_availableTokens = Num 3, rl_retryAfter = Num 0, rl_accepted = True,
       rl_limit = Num 5\<rparr>,
      \<lparr>rl_availableTokens = Num 2, rl_retryAfter = Num 0, rl_accepted = True,
       rl_limit = Num 5\<rparr>,
      \<lparr>rl_availableTokens = Num 1, rl_retryAfter = Num 0, rl_accepted = True,
       rl_limit = Num 5\<rparr>,
      \<lparr>rl_availableTokens = Num 0, rl_retryAfter = Num 0, rl_accepted = True,
       rl_limit = Num 5\<rparr>,
      \<lparr>rl_availableTokens = Num 0, rl_retryAfter = Num 10000, rl_accepted = False,
       rl_limit = Num 5\<rparr>,
      \<lparr>rl_availableTokens = Num 4, rl_retryAfter = Num 10000, rl_accepted = True,
       rl_limit = Num 5\<rparr>]"
  using fixed_window_scenario [of empty_storage "''quota''"]
  by (simp add: quota5_def empty_storage_def)


end
